theory Spec2Isabelle
  imports Main "HOL-Library.Word" "HOL-Library.Finite_Map"
begin

section \<open>Event processor: data model\<close>

text \<open>
  The embedding follows \<^verbatim>\<open>cmd/event-processor/main.go\<close>. Go strings are
  \<^typ>\<open>string\<close> (byte lists), Go maps are finite maps, the machine integers of the
  configuration are 64-bit words (the build targets amd64), and every function that
  touches a global (the DynamoDB client, the schema cache, the log) passes that state
  explicitly.
\<close>

subsection \<open>Dynamically typed payload values and DynamoDB attribute values\<close>

text \<open>
  A value of Go type \<^verbatim>\<open>any\<close>, by the cases that \<^verbatim>\<open>toAttr\<close> distinguishes.
  A \<^verbatim>\<open>float64\<close> is its IEEE-754 bit pattern. \<open>GoInt\<close> stands for the types
  \<^verbatim>\<open>int\<close>, \<^verbatim>\<open>int64\<close> and \<^verbatim>\<open>int32\<close>. \<open>GoOther\<close> is a value of any other
  dynamic type, given by the text \<^verbatim>\<open>json.Marshal\<close> produces for it (empty when
  marshalling fails, since the error is discarded).
\<close>

datatype GoValue =
    GoNil
  | GoString string
  | GoBool bool
  | GoFloat64 "64 word"
  | GoInt int
  | GoSlice "GoValue list"
  | GoMap "(string, GoValue) fmap"
  | GoOther string

datatype AttributeValue =
    AttributeValueMemberNULL bool
  | AttributeValueMemberS string
  | AttributeValueMemberBOOL bool
  | AttributeValueMemberN string
  | AttributeValueMemberL "AttributeValue list"
  | AttributeValueMemberM "(string, AttributeValue) fmap"

type_synonym Item = "(string, AttributeValue) fmap"

subsection \<open>Decimal rendering (\<^verbatim>\<open>%d\<close>, and \<^verbatim>\<open>%v\<close> of an integer)\<close>

definition digitChar :: "nat \<Rightarrow> char" where
  "digitChar d = char_of (48 + d)"

fun showNat :: "nat \<Rightarrow> string" where
  "showNat n = (if n < 10 then [digitChar n] else showNat (n div 10) @ [digitChar (n mod 10)])"

declare showNat.simps [simp del]

definition showInt :: "int \<Rightarrow> string" where
  "showInt i = (if i < 0 then CHR ''-'' # showNat (nat (- i)) else showNat (nat i))"




subsection \<open>The attribute codec\<close>

text \<open>
  \<^verbatim>\<open>toAttr\<close> and \<^verbatim>\<open>toAttrMap\<close> (lines 237-271). The first argument is
  \<^verbatim>\<open>fmt.Sprintf("%v", t)\<close> at type \<^verbatim>\<open>float64\<close>, a function of the Go library.
  \<^verbatim>\<open>toAttrMap\<close> fills a fresh map with \<^verbatim>\<open>out[k] = toAttr(v)\<close> for every entry,
  which is \<^const>\<open>fmmap\<close>.
\<close>

primrec toAttr :: "(64 word \<Rightarrow> string) \<Rightarrow> GoValue \<Rightarrow> AttributeValue" where
  "toAttr fmtFloat GoNil = AttributeValueMemberNULL True"
| "toAttr fmtFloat (GoString t) = AttributeValueMemberS t"
| "toAttr fmtFloat (GoBool t) = AttributeValueMemberBOOL t"
| "toAttr fmtFloat (GoFloat64 t) = AttributeValueMemberN (fmtFloat t)"
| "toAttr fmtFloat (GoInt t) = AttributeValueMemberN (showInt t)"
| "toAttr fmtFloat (GoSlice t) = AttributeValueMemberL (map (toAttr fmtFloat) t)"
| "toAttr fmtFloat (GoMap t) = AttributeValueMemberM (fmmap (toAttr fmtFloat) t)"
| "toAttr fmtFloat (GoOther b) = AttributeValueMemberS b"

definition toAttrMap :: "(64 word \<Rightarrow> string) \<Rightarrow> (string, GoValue) fmap \<Rightarrow> Item" where
  "toAttrMap fmtFloat m = fmmap (toAttr fmtFloat) m"

text \<open>
  The entries \<^verbatim>\<open>range\<close> walks in a map that may be nil: a nil map has none, so
  \<^verbatim>\<open>toAttrMap\<close> of a nil map is the empty attribute map.
\<close>

definition entriesOf :: "(string, GoValue) fmap option \<Rightarrow> (string, GoValue) fmap" where
  "entriesOf m = (case m of None \<Rightarrow> fmempty | Some es \<Rightarrow> es)"

subsection \<open>Configuration, envelope, clock\<close>

text \<open>
  \<^verbatim>\<open>AppConfig\<close> (lines 31-37). The two retention fields have Go type \<^verbatim>\<open>int\<close>,
  here a 64-bit word read as a signed number.
\<close>

record AppConfig =
  EventsTable :: string
  IdemTable :: string
  Region :: string
  EventsTTLDays :: "64 word"
  IdemTTLDays :: "64 word"

text \<open>
  \<^verbatim>\<open>Envelope\<close> (lines 57-64). \<^verbatim>\<open>Payload\<close> is a Go map, which may be nil (a body with
  no \<^verbatim>\<open>payload\<close>, or with \<^verbatim>\<open>"payload": null\<close>): \<open>None\<close> is the nil map, \<open>Some m\<close> a map
  with the entries \<open>m\<close>. The schema validator tells the two apart (\<^verbatim>\<open>null\<close> and \<^verbatim>\<open>{}\<close>).
\<close>

record Envelope =
  TenantID :: string
  EventID :: string
  EventType :: string
  Route :: string
  Payload :: "(string, GoValue) fmap option"
  CreatedAt :: string

text \<open>
  \<^verbatim>\<open>persistEventOnce\<close> reads the clock at four places. A \<open>Clock\<close> holds the four
  readings of one call, in textual order: the readings of lines 110 and 121 by the
  text \<^verbatim>\<open>UTC().Format(time.RFC3339Nano)\<close> gives for them, those of lines 114 and 140
  (taken only when the retention is positive) in nanoseconds since the Unix epoch.
\<close>

record Clock =
  idemCreatedNow :: string
  idemTTLNow :: int
  eventCreatedNow :: string
  eventTTLNow :: int

text \<open>
  \<^verbatim>\<open>now.Add(time.Duration(days) * 24 * time.Hour).Unix()\<close>: the duration is an
  \<^verbatim>\<open>int64\<close> count of nanoseconds, so the product wraps; \<^verbatim>\<open>Unix()\<close> is the floor of
  the seconds.
\<close>

definition expiryUnix :: "int \<Rightarrow> 64 word \<Rightarrow> int" where
  "expiryUnix nowNano days = (nowNano + sint (days * 24 * 3600000000000)) div 1000000000"

subsection \<open>Errors of the store client\<close>

text \<open>
  An error returned by the DynamoDB client, by what the program asks of it:
  \<^verbatim>\<open>errors.As\<close> to a \<^verbatim>\<open>TransactionCanceledException\<close> (with the \<^verbatim>\<open>Code\<close> pointer of
  each cancellation reason), \<^verbatim>\<open>errors.As\<close> to a \<^verbatim>\<open>ConditionalCheckFailedException\<close>,
  and the text of \<^verbatim>\<open>err.Error()\<close>, which every constructor carries last.
\<close>

datatype store_error =
    TransactionCanceledException "string option list" string
  | ConditionalCheckFailedException string
  | OtherError string

primrec errorText :: "store_error \<Rightarrow> string" where
  "errorText (TransactionCanceledException rs t) = t"
| "errorText (ConditionalCheckFailedException t) = t"
| "errorText (OtherError t) = t"

text \<open>\<^verbatim>\<open>strings.HasPrefix\<close> and \<^verbatim>\<open>strings.Contains\<close>.\<close>

fun HasPrefix :: "string \<Rightarrow> string \<Rightarrow> bool" where
  "HasPrefix s [] = True"
| "HasPrefix [] (p # ps) = False"
| "HasPrefix (c # s) (p # ps) = (c = p \<and> HasPrefix s ps)"

fun Contains :: "string \<Rightarrow> string \<Rightarrow> bool" where
  "Contains [] substr = (substr = [])"
| "Contains (c # s) substr = (HasPrefix (c # s) substr \<or> Contains s substr)"

text \<open>\<^verbatim>\<open>strings.Join\<close>.\<close>

fun Join :: "string list \<Rightarrow> string \<Rightarrow> string" where
  "Join [] sep = []"
| "Join [x] sep = x"
| "Join (x # y # ys) sep = x @ sep @ Join (y # ys) sep"

subsection \<open>The transactional key-value store\<close>

text \<open>
  The store is an external collaborator. Its model holds the two tables that
  \<^verbatim>\<open>infra/main.tf\<close> provisions: the idempotency table (hash key \<^verbatim>\<open>pk\<close>) and the
  events table (hash key \<^verbatim>\<open>tenant_id\<close>, range key \<^verbatim>\<open>sk\<close>), each under its name.
\<close>

record DynamoDB =
  idemName :: string
  idemItems :: "(string, Item) fmap"
  eventsName :: string
  eventsItems :: "(string \<times> string, Item) fmap"

text \<open>A condition expression, by its abstract syntax; the program builds only this form.\<close>

datatype Condition = attribute_not_exists string

record Put =
  TableName :: string
  Item :: Item
  ConditionExpression :: Condition

datatype ItemKey = IdemKey string | EventsKey string string

definition stringAttr :: "Item \<Rightarrow> string \<Rightarrow> string option" where
  "stringAttr it a = (case fmlookup it a of Some (AttributeValueMemberS v) \<Rightarrow> Some v | _ \<Rightarrow> None)"

text \<open>The table a put addresses and the primary key its item carries.\<close>

definition putKey :: "DynamoDB \<Rightarrow> Put \<Rightarrow> store_error + ItemKey" where
  "putKey db p =
     (if TableName p = idemName db then
        (case stringAttr (Item p) ''pk'' of
           Some k \<Rightarrow> Inr (IdemKey k)
         | None \<Rightarrow> Inl (OtherError ''ValidationException: One of the required keys was not given a value''))
      else if TableName p = eventsName db then
        (case stringAttr (Item p) ''tenant_id'' of
           Some t \<Rightarrow>
             (case stringAttr (Item p) ''sk'' of
                Some s \<Rightarrow> Inr (EventsKey t s)
              | None \<Rightarrow> Inl (OtherError ''ValidationException: One of the required keys was not given a value''))
         | None \<Rightarrow> Inl (OtherError ''ValidationException: One of the required keys was not given a value''))
      else Inl (OtherError ''ResourceNotFoundException: Requested resource not found''))"

primrec getItem :: "DynamoDB \<Rightarrow> ItemKey \<Rightarrow> Item option" where
  "getItem db (IdemKey k) = fmlookup (idemItems db) k"
| "getItem db (EventsKey t s) = fmlookup (eventsItems db) (t, s)"

primrec putItem :: "DynamoDB \<Rightarrow> ItemKey \<Rightarrow> Item \<Rightarrow> DynamoDB" where
  "putItem db (IdemKey k) it = db\<lparr>idemItems := fmupd k it (idemItems db)\<rparr>"
| "putItem db (EventsKey t s) it = db\<lparr>eventsItems := fmupd (t, s) it (eventsItems db)\<rparr>"

primrec conditionHolds :: "Condition \<Rightarrow> Item option \<Rightarrow> bool" where
  "conditionHolds (attribute_not_exists a) old =
     (case old of None \<Rightarrow> True | Some it \<Rightarrow> fmlookup it a = None)"

fun resolvePuts :: "DynamoDB \<Rightarrow> Put list \<Rightarrow> store_error + (ItemKey \<times> Put) list" where
  "resolvePuts db [] = Inr []"
| "resolvePuts db (p # ps) =
     (case putKey db p of
        Inl e \<Rightarrow> Inl e
      | Inr k \<Rightarrow> (case resolvePuts db ps of Inl e \<Rightarrow> Inl e | Inr kps \<Rightarrow> Inr ((k, p) # kps)))"

definition cancellationCode :: "bool \<Rightarrow> string" where
  "cancellationCode ok = (if ok then ''None'' else ''ConditionalCheckFailed'')"

definition canceledText :: "string list \<Rightarrow> string" where
  "canceledText codes =
     ''TransactionCanceledException: Transaction cancelled, please refer cancellation reasons for specific reasons [''
     @ Join codes '', '' @ '']''"

text \<open>
  \<^verbatim>\<open>TransactWriteItems\<close> on a list of conditional puts: all or nothing. \<open>fault\<close> is a
  failure of the call that has nothing to do with the items (throttling, network); the
  call then changes nothing. Otherwise the request is rejected as a whole when a put
  names no table, carries no key, or two puts address one item; it is cancelled, with one
  reason for each put, when a condition fails on the stored item; else every put is
  applied.
\<close>

definition TransactWriteItems ::
  "store_error option \<Rightarrow> DynamoDB \<Rightarrow> Put list \<Rightarrow> DynamoDB \<times> store_error option" where
  "TransactWriteItems fault db puts =
     (case fault of
        Some e \<Rightarrow> (db, Some e)
      | None \<Rightarrow>
          (case resolvePuts db puts of
             Inl e \<Rightarrow> (db, Some e)
           | Inr kps \<Rightarrow>
               if \<not> distinct (map fst kps) then
                 (db, Some (OtherError ''ValidationException: Transaction request cannot include multiple operations on one item''))
               else
                 let oks = map (\<lambda>(k, p). conditionHolds (ConditionExpression p) (getItem db k)) kps
                 in if list_all id oks then (foldl (\<lambda>d (k, p). putItem d k (Item p)) db kps, None)
                    else
                      let codes = map cancellationCode oks
                      in (db, Some (TransactionCanceledException (map Some codes) (canceledText codes)))))"





subsection \<open>The idempotent ledger writer\<close>

text \<open>The local variables \<^verbatim>\<open>pk\<close> (line 107), \<^verbatim>\<open>created\<close> (lines 119-122) and \<^verbatim>\<open>sk\<close> (line 123).\<close>

definition pkOf :: "Envelope \<Rightarrow> string" where
  "pkOf env = TenantID env @ ''#'' @ EventID env"

definition createdOf :: "Clock \<Rightarrow> Envelope \<Rightarrow> string" where
  "createdOf clk env = (if CreatedAt env = [] then eventCreatedNow clk else CreatedAt env)"

definition skOf :: "Clock \<Rightarrow> Envelope \<Rightarrow> string" where
  "skOf clk env = createdOf clk env @ ''#'' @ EventID env"

text \<open>The deduplication item (lines 107-116).\<close>

definition idemItem :: "AppConfig \<Rightarrow> Clock \<Rightarrow> Envelope \<Rightarrow> Item" where
  "idemItem cfg clk env =
     (let pk = pkOf env;
          idem = fmap_of_list
            [(''pk'', AttributeValueMemberS pk),
             (''created_at'', AttributeValueMemberS (idemCreatedNow clk)),
             (''event_type'', AttributeValueMemberS (EventType env))]
      in if 0 <s IdemTTLDays cfg
         then fmupd ''ttl'' (AttributeValueMemberN (showInt (expiryUnix (idemTTLNow clk) (IdemTTLDays cfg)))) idem
         else idem)"

text \<open>The ledger item (lines 119-142).\<close>

definition eventItem ::
  "(64 word \<Rightarrow> string) \<Rightarrow> AppConfig \<Rightarrow> Clock \<Rightarrow> Envelope \<Rightarrow> string \<Rightarrow> string \<Rightarrow> Item" where
  "eventItem fmtFloat cfg clk env status reason =
     (let created = createdOf clk env;
          sk = skOf clk env;
          evt = fmap_of_list
            [(''tenant_id'', AttributeValueMemberS (TenantID env)),
             (''sk'', AttributeValueMemberS sk),
             (''event_type'', AttributeValueMemberS (EventType env)),
             (''status'', AttributeValueMemberS status),
             (''payload'', AttributeValueMemberM (toAttrMap fmtFloat (entriesOf (Payload env)))),
             (''retries'', AttributeValueMemberN ''0''),
             (''tenant_id_created_at'', AttributeValueMemberS (TenantID env @ ''#'' @ created))];
          evt = (if Route env \<noteq> [] then fmupd ''route'' (AttributeValueMemberS (Route env)) evt else evt);
          evt = (if reason \<noteq> [] then fmupd ''reason'' (AttributeValueMemberS reason) evt else evt)
      in if 0 <s EventsTTLDays cfg
         then fmupd ''ttl'' (AttributeValueMemberN (showInt (expiryUnix (eventTTLNow clk) (EventsTTLDays cfg)))) evt
         else evt)"

text \<open>The loop over the cancellation reasons (lines 169-173).\<close>

primrec anyConditionalCheckFailed :: "string option list \<Rightarrow> bool" where
  "anyConditionalCheckFailed [] = False"
| "anyConditionalCheckFailed (r # rs) =
     (if r \<noteq> None \<and> the r = ''ConditionalCheckFailed'' then True else anyConditionalCheckFailed rs)"

text \<open>The two tests of lines 166-179 that turn an error into "duplicate".\<close>

definition isDuplicateError :: "store_error \<Rightarrow> bool" where
  "isDuplicateError err =
     ((case err of TransactionCanceledException rs t \<Rightarrow> anyConditionalCheckFailed rs | _ \<Rightarrow> False)
      \<or> (case err of ConditionalCheckFailedException t \<Rightarrow> True | _ \<Rightarrow> False)
      \<or> Contains (errorText err) ''ConditionalCheckFailed'')"

text \<open>
  \<^verbatim>\<open>persistEventOnce\<close> (lines 105-183). It returns the store after the call, the flag
  and the error.
\<close>

definition persistEventOnce ::
  "(64 word \<Rightarrow> string) \<Rightarrow> AppConfig \<Rightarrow> Clock \<Rightarrow> store_error option \<Rightarrow>
   DynamoDB \<Rightarrow> Envelope \<Rightarrow> string \<Rightarrow> string \<Rightarrow> DynamoDB \<times> bool \<times> store_error option" where
  "persistEventOnce fmtFloat cfg clk fault db env status reason =
     (let idem = idemItem cfg clk env;
          evt = eventItem fmtFloat cfg clk env status reason;
          input =
            [\<lparr>TableName = IdemTable cfg, Item = idem,
              ConditionExpression = attribute_not_exists ''pk''\<rparr>,
             \<lparr>TableName = EventsTable cfg, Item = evt,
              ConditionExpression = attribute_not_exists ''sk''\<rparr>]
      in case TransactWriteItems fault db input of
           (db', Some err) \<Rightarrow>
             if isDuplicateError err then (db', False, None) else (db', False, Some err)
         | (db', None) \<Rightarrow> (db', True, None))"

subsection \<open>Schema cache and envelope validator\<close>

text \<open>
  A compiled schema is what \<^verbatim>\<open>Validate\<close> does with a payload: an evaluation error
  (its text), or the result. A result is the list \<^verbatim>\<open>res.Errors()\<close>, each error by the
  text of its \<^verbatim>\<open>String()\<close>; gojsonschema's \<^verbatim>\<open>res.Valid()\<close> holds when the list is
  empty.
\<close>

type_synonym Schema = "(string, GoValue) fmap option \<Rightarrow> string + string list"

definition Valid :: "string list \<Rightarrow> bool" where
  "Valid errs = (errs = [])"

text \<open>
  The library functions the program calls, as parameters: \<^verbatim>\<open>embschemas.FS.ReadFile\<close>
  and \<^verbatim>\<open>gojsonschema.NewSchema\<close> (an error text, or the result), and \<^verbatim>\<open>json.Unmarshal\<close>
  of a message body into an \<^verbatim>\<open>Envelope\<close>.
\<close>

record Library =
  ReadFile :: "string \<Rightarrow> string + string"
  NewSchema :: "string \<Rightarrow> string + Schema"
  Unmarshal :: "string \<Rightarrow> string + Envelope"

text \<open>\<^verbatim>\<open>loadSchema\<close> (lines 187-209), with the cache \<^verbatim>\<open>schemas.byType\<close> passed and returned.\<close>

definition loadSchema ::
  "Library \<Rightarrow> (string, Schema) fmap \<Rightarrow> string \<Rightarrow> (string, Schema) fmap \<times> (string + Schema)" where
  "loadSchema lib byType eventType =
     (case fmlookup byType eventType of
        Some s \<Rightarrow> (byType, Inr s)
      | None \<Rightarrow>
          let file = eventType @ ''.json''
          in case ReadFile lib file of
               Inl err \<Rightarrow> (byType, Inl (''embed read schema '' @ file @ '': '' @ err))
             | Inr b \<Rightarrow>
                 (case NewSchema lib b of
                    Inl err \<Rightarrow> (byType, Inl (''compile schema: '' @ err))
                  | Inr schema \<Rightarrow> (fmupd eventType schema byType, Inr schema)))"

text \<open>\<^verbatim>\<open>validate\<close> (lines 213-231).\<close>

definition validate ::
  "Library \<Rightarrow> (string, Schema) fmap \<Rightarrow> Envelope \<Rightarrow> (string, Schema) fmap \<times> bool \<times> string" where
  "validate lib byType env =
     (case loadSchema lib byType (EventType env) of
        (byType', Inl err) \<Rightarrow> (byType', False, ''schema load error: '' @ err)
      | (byType', Inr schema) \<Rightarrow>
          (case schema (Payload env) of
             Inl err \<Rightarrow> (byType', False, err)
           | Inr res \<Rightarrow>
               if \<not> Valid res then (byType', False, Join res ''; '')
               else (byType', True, [])))"

subsection \<open>Message handler\<close>

record SQSMessage =
  Body :: string

record SQSEvent =
  Records :: "SQSMessage list"

datatype HandlerError =
    InvalidJSON string
  | MissingFields
  | PersistError store_error

text \<open>
  What the program prints and logs, one entry for each call of \<^verbatim>\<open>fmt.Printf\<close> and
  \<^verbatim>\<open>log.Printf\<close>, with the arguments of the call (lines 280, 295, 299, 301, 310).
\<close>

datatype LogLine =
    EnvPrinted Envelope
  | DuplicateSkipped string string string
  | ProcessedWithReason string string string string string
  | Processed string string string string
  | RecordFailed HandlerError

text \<open>The globals a message is processed against.\<close>

record World =
  dynamo :: DynamoDB
  schemas :: "(string, Schema) fmap"
  logged :: "LogLine list"

text \<open>
  \<^verbatim>\<open>writeEventOnce\<close> is a variable of the program (line 53), \<^verbatim>\<open>persistEventOnce\<close>
  unless a test replaces it: a parameter of the handler.
\<close>

type_synonym Writer =
  "DynamoDB \<Rightarrow> Envelope \<Rightarrow> string \<Rightarrow> string \<Rightarrow> DynamoDB \<times> bool \<times> store_error option"

definition logLine :: "LogLine \<Rightarrow> World \<Rightarrow> World" where
  "logLine l w = w\<lparr>logged := logged w @ [l]\<rparr>"

text \<open>The status \<^verbatim>\<open>handleRecord\<close> derives from the verdict (lines 285-288).\<close>

definition statusOf :: "bool \<Rightarrow> string" where
  "statusOf valid = (if \<not> valid then ''INVALID'' else ''READY'')"

text \<open>\<^verbatim>\<open>handleRecord\<close> (lines 275-304).\<close>

definition handleRecord ::
  "Library \<Rightarrow> Writer \<Rightarrow> World \<Rightarrow> SQSMessage \<Rightarrow> World \<times> HandlerError option" where
  "handleRecord lib writeEventOnce w rec =
     (case Unmarshal lib (Body rec) of
        Inl err \<Rightarrow> (w, Some (InvalidJSON err))
      | Inr env \<Rightarrow>
          let w = logLine (EnvPrinted env) w
          in if TenantID env = [] \<or> EventID env = [] \<or> EventType env = []
             then (w, Some MissingFields)
             else
               case validate lib (schemas w) env of (byType, valid, reason) \<Rightarrow>
               let w = w\<lparr>schemas := byType\<rparr>;
                   status = statusOf valid
               in case writeEventOnce (dynamo w) env status reason of (db, written, err) \<Rightarrow>
                  let w = w\<lparr>dynamo := db\<rparr>
                  in case err of
                       Some e \<Rightarrow> (w, Some (PersistError e))
                     | None \<Rightarrow>
                         if \<not> written
                         then (logLine (DuplicateSkipped (TenantID env) (EventID env) (EventType env)) w, None)
                         else if status = ''INVALID''
                         then (logLine (ProcessedWithReason status reason (TenantID env) (EventID env) (EventType env)) w, None)
                         else (logLine (Processed status (TenantID env) (EventID env) (EventType env)) w, None))"

text \<open>\<^verbatim>\<open>handler\<close> (lines 307-315): the loop over \<^verbatim>\<open>ev.Records\<close>.\<close>

fun handleRecords ::
  "Library \<Rightarrow> Writer \<Rightarrow> World \<Rightarrow> SQSMessage list \<Rightarrow> World \<times> HandlerError option" where
  "handleRecords lib writeEventOnce w [] = (w, None)"
| "handleRecords lib writeEventOnce w (rec # recs) =
     (case handleRecord lib writeEventOnce w rec of
        (w', Some err) \<Rightarrow> (logLine (RecordFailed err) w', Some err)
      | (w', None) \<Rightarrow> handleRecords lib writeEventOnce w' recs)"

definition handler ::
  "Library \<Rightarrow> Writer \<Rightarrow> World \<Rightarrow> SQSEvent \<Rightarrow> World \<times> HandlerError option" where
  "handler lib writeEventOnce w ev = handleRecords lib writeEventOnce w (Records ev)"

section \<open>Auxiliary notions for the statements\<close>

text \<open>
  A conditional put finds its slot free when no item is stored under the key, or the
  stored item lacks the attribute the condition names.
\<close>

definition slotFree :: "string \<Rightarrow> Item option \<Rightarrow> bool" where
  "slotFree a old = (case old of None \<Rightarrow> True | Some it \<Rightarrow> fmlookup it a = None)"

text \<open>When the store accepts the dual write of \<^const>\<open>persistEventOnce\<close>.\<close>

definition accepted :: "AppConfig \<Rightarrow> Clock \<Rightarrow> store_error option \<Rightarrow> DynamoDB \<Rightarrow> Envelope \<Rightarrow> bool" where
  "accepted cfg clk fault db env =
     (fault = None \<and> IdemTable cfg = idemName db \<and> EventsTable cfg = eventsName db
      \<and> eventsName db \<noteq> idemName db
      \<and> slotFree ''pk'' (fmlookup (idemItems db) (pkOf env))
      \<and> slotFree ''sk'' (fmlookup (eventsItems db) (TenantID env, skOf clk env)))"

text \<open>The store after an accepted dual write.\<close>

definition dualWrite :: "(64 word \<Rightarrow> string) \<Rightarrow> AppConfig \<Rightarrow> Clock \<Rightarrow> DynamoDB \<Rightarrow> Envelope \<Rightarrow> string \<Rightarrow> string \<Rightarrow> DynamoDB" where
  "dualWrite fmtFloat cfg clk db env status reason =
     db\<lparr>idemItems := fmupd (pkOf env) (idemItem cfg clk env) (idemItems db),
        eventsItems := fmupd (TenantID env, skOf clk env)
          (eventItem fmtFloat cfg clk env status reason) (eventsItems db)\<rparr>"








text \<open>
  An answer of a schema that carries no empty text: the evaluation error has a text, and
  so has every reported error (gojsonschema renders an error as \<^verbatim>\<open>field: description\<close>).
\<close>

definition noEmptyText :: "string + string list \<Rightarrow> bool" where
  "noEmptyText answer = (case answer of Inl err \<Rightarrow> err \<noteq> [] | Inr errs \<Rightarrow> [] \<notin> set errs)"

text \<open>
  The two errors by which the client reports a failed precondition: a cancelled
  transaction with a reason of code \<^verbatim>\<open>ConditionalCheckFailed\<close>, and the exception of a
  single conditional write.
\<close>

definition preconditionFailure :: "store_error \<Rightarrow> bool" where
  "preconditionFailure err =
     (case err of
        TransactionCanceledException rs t \<Rightarrow> Some ''ConditionalCheckFailed'' \<in> set rs
      | ConditionalCheckFailedException t \<Rightarrow> True
      | OtherError t \<Rightarrow> False)"




section \<open>Example data\<close>

text \<open>The deployment of \<^verbatim>\<open>infra/main.tf\<close> with empty tables, and the envelope of the tests.\<close>

definition exampleStore :: DynamoDB where
  "exampleStore = \<lparr>idemName = ''idempotency'', idemItems = fmempty,
                    eventsName = ''events'', eventsItems = fmempty\<rparr>"

definition exampleCfg :: AppConfig where
  "exampleCfg = \<lparr>EventsTable = ''events'', IdemTable = ''idempotency'', Region = ''us-east-1'',
                  EventsTTLDays = 30, IdemTTLDays = - 1\<rparr>"

definition exampleClock :: Clock where
  "exampleClock = \<lparr>idemCreatedNow = ''2025-01-01T00:00:00.000000001Z'', idemTTLNow = 1735689600000000002,
                    eventCreatedNow = ''2025-01-01T00:00:00.000000003Z'', eventTTLNow = 1735689600000000004\<rparr>"

definition exampleEnv :: Envelope where
  "exampleEnv = \<lparr>TenantID = ''t1'', EventID = ''e1'', EventType = ''user.created'', Route = [],
                  Payload = Some (fmupd ''id'' (GoString ''123'') (fmupd ''email'' (GoString ''user@example.com'') fmempty)),
                  CreatedAt = []\<rparr>"

text \<open>A stand-in for the float formatter: the bit pattern in decimal.\<close>

definition exampleFmt :: "64 word \<Rightarrow> string" where
  "exampleFmt x = showNat (unat x)"




text \<open>A failure of the call that is no failed precondition.\<close>

definition throttledError :: store_error where
  "throttledError = OtherError ''ThrottlingException: Rate exceeded''"

text \<open>
  A library for the examples: one schema document, \<^verbatim>\<open>user.created.json\<close>, whose
  compiled schema requires \<^verbatim>\<open>id\<close> and \<^verbatim>\<open>email\<close>, and the decoding of four message
  bodies.
\<close>

definition requiredErrors :: "string list \<Rightarrow> (string, GoValue) fmap \<Rightarrow> string list" where
  "requiredErrors names payload =
     map (\<lambda>n. ''(root): '' @ n @ '' is required'') (filter (\<lambda>n. fmlookup payload n = None) names)"

definition userCreatedSchema :: Schema where
  "userCreatedSchema payload =
     (case payload of
        None \<Rightarrow> Inr [''(root): Invalid type. Expected: object, given: null'']
      | Some m \<Rightarrow> Inr (requiredErrors [''id'', ''email''] m))"

definition exampleBody :: string where
  \<open>exampleBody = ''{"tenant_id":"t1","event_id":"e1","event_type":"user.created","payload":{"id":"123","email":"user@example.com"}}''\<close>

definition unknownBody :: string where
  \<open>unknownBody = ''{"tenant_id":"t1","event_id":"e7","event_type":"order.shipped","payload":{}}''\<close>

definition unknownEnv :: Envelope where
  "unknownEnv = \<lparr>TenantID = ''t1'', EventID = ''e7'', EventType = ''order.shipped'', Route = [],
                  Payload = Some fmempty, CreatedAt = []\<rparr>"

definition incompleteBody :: string where
  \<open>incompleteBody = ''{"tenant_id":"t1","event_id":"e8","event_type":"user.created","payload":{}}''\<close>

definition incompleteEnv :: Envelope where
  "incompleteEnv = \<lparr>TenantID = ''t1'', EventID = ''e8'', EventType = ''user.created'', Route = [],
                     Payload = Some fmempty, CreatedAt = []\<rparr>"

definition anonymousBody :: string where
  \<open>anonymousBody = ''{"event_id":"e9","event_type":"user.created","payload":{}}''\<close>

definition anonymousEnv :: Envelope where
  "anonymousEnv = \<lparr>TenantID = [], EventID = ''e9'', EventType = ''user.created'', Route = [],
                    Payload = Some fmempty, CreatedAt = []\<rparr>"

definition exampleLib :: Library where
  "exampleLib =
     \<lparr>ReadFile = (\<lambda>file. if file = ''user.created.json'' then Inr ''schema document''
                         else Inl (''open '' @ file @ '': file does not exist'')),
      NewSchema = (\<lambda>b. if b = ''schema document'' then Inr userCreatedSchema
                        else Inl ''invalid character'' ),
      Unmarshal = (\<lambda>body. if body = exampleBody then Inr exampleEnv
                           else if body = unknownBody then Inr unknownEnv
                           else if body = incompleteBody then Inr incompleteEnv
                           else if body = anonymousBody then Inr anonymousEnv
                           else Inl ''unexpected end of JSON input'')\<rparr>"

definition exampleWorld :: World where
  "exampleWorld = \<lparr>dynamo = exampleStore, schemas = fmempty, logged = []\<rparr>"

text \<open>The writer that \<^verbatim>\<open>TestHandler_DuplicateAck\<close> installs.\<close>

definition duplicateWriter :: Writer where
  "duplicateWriter db env status reason = (db, False, None)"

text \<open>A writer that would replace the store and fail.\<close>

definition failingWriter :: Writer where
  "failingWriter db env status reason = (exampleStore, True, Some throttledError)"

text \<open>The writer of the program, at the example configuration and clock.\<close>

definition exampleWriter :: Writer where
  "exampleWriter = persistEventOnce exampleFmt exampleCfg exampleClock None"







text \<open>
  A deployment whose project is named \<^verbatim>\<open>ConditionalCheckFailed-audit\<close>, so that its
  tables are \<^verbatim>\<open>ConditionalCheckFailed-audit-events\<close> and
  \<^verbatim>\<open>ConditionalCheckFailed-audit-idempotency\<close> (\<^verbatim>\<open>infra/main.tf\<close> names them
  \<^verbatim>\<open>${var.project}-events\<close> and \<^verbatim>\<open>${var.project}-idempotency\<close>), with empty tables.
\<close>

definition auditCfg :: AppConfig where
  "auditCfg = \<lparr>EventsTable = ''ConditionalCheckFailed-audit-events'',
                IdemTable = ''ConditionalCheckFailed-audit-idempotency'', Region = ''us-east-1'',
                EventsTTLDays = 0, IdemTTLDays = 7\<rparr>"

definition auditStore :: DynamoDB where
  "auditStore = \<lparr>idemName = ''ConditionalCheckFailed-audit-idempotency'', idemItems = fmempty,
                  eventsName = ''ConditionalCheckFailed-audit-events'', eventsItems = fmempty\<rparr>"

text \<open>
  The error of a call the role is not allowed to make: its text names the table the call
  addresses.
\<close>

definition accessDenied :: "string \<Rightarrow> store_error" where
  "accessDenied table = OtherError
     (''AccessDeniedException: User is not authorized to perform: dynamodb:TransactWriteItems on resource: arn:aws:dynamodb:us-east-1:123456789012:table/''
      @ table)"

section \<open>Decimal rendering and reading\<close>












section \<open>The ledger writer, step by step\<close>

lemma stringAttr_idem [simp]:
  "stringAttr (idemItem cfg clk env) ''pk'' = Some (pkOf env)"
  "stringAttr (idemItem cfg clk env) ''tenant_id'' = None"
  "stringAttr (idemItem cfg clk env) ''sk'' = None"
  by (simp_all add: stringAttr_def idemItem_def Let_def fmlookup_of_list)

lemma stringAttr_event [simp]:
  "stringAttr (eventItem f cfg clk env st r) ''pk'' = None"
  "stringAttr (eventItem f cfg clk env st r) ''tenant_id'' = Some (TenantID env)"
  "stringAttr (eventItem f cfg clk env st r) ''sk'' = Some (skOf clk env)"
  by (simp_all add: stringAttr_def eventItem_def Let_def fmlookup_of_list)

lemma anyConditionalCheckFailed_iff:
  "anyConditionalCheckFailed rs = (Some ''ConditionalCheckFailed'' \<in> set rs)"
  by (induction rs) auto

lemma persistEventOnce_accepted:
  "accepted cfg clk fault db env \<Longrightarrow>
   persistEventOnce f cfg clk fault db env st r = (dualWrite f cfg clk db env st r, True, None)"
  by (auto simp: accepted_def persistEventOnce_def TransactWriteItems_def putKey_def slotFree_def Let_def
       dualWrite_def split: option.splits)

lemma persistEventOnce_rejected:
  "\<not> accepted cfg clk fault db env \<Longrightarrow>
   \<exists>e. persistEventOnce f cfg clk fault db env st r = (db, False, e)"
  by (auto simp: accepted_def persistEventOnce_def TransactWriteItems_def putKey_def slotFree_def Let_def
        isDuplicateError_def anyConditionalCheckFailed_iff cancellationCode_def
       split: option.splits)

lemma persistEventOnce_True_iff:
  "persistEventOnce f cfg clk fault db env st r = (db', True, e) \<longleftrightarrow>
   accepted cfg clk fault db env \<and> db' = dualWrite f cfg clk db env st r \<and> e = None"
proof (cases "accepted cfg clk fault db env")
  case True
  then show ?thesis using persistEventOnce_accepted[OF True, of f st r] by auto
next
  case False
  then show ?thesis using persistEventOnce_rejected[OF False, of f st r] by auto
qed

lemma example_accepted: "accepted exampleCfg exampleClock None exampleStore exampleEnv"
  by (simp add: accepted_def exampleCfg_def exampleStore_def slotFree_def)









section \<open>Expiry attributes\<close>

text \<open>
  C10. The deduplication item carries a \<^verbatim>\<open>ttl\<close> attribute exactly when
  \<^verbatim>\<open>cfg.IdemTTLDays\<close> is strictly positive, and the ledger item exactly when
  \<^verbatim>\<open>cfg.EventsTTLDays\<close> is: a retention of zero or below attaches no expiry. These two
  items are the records a successful call stores.
\<close>

theorem ttl_only_for_positive_retention:
  "(fmlookup (idemItem cfg clk env) ''ttl'' \<noteq> None) = (0 <s IdemTTLDays cfg)
   \<and> (fmlookup (eventItem f cfg clk env st r) ''ttl'' \<noteq> None) = (0 <s EventsTTLDays cfg)
   \<and> (persistEventOnce f cfg clk fault db env st r = (db', True, None) \<longrightarrow>
        fmlookup (idemItems db') (pkOf env) = Some (idemItem cfg clk env)
        \<and> fmlookup (eventsItems db') (TenantID env, skOf clk env) = Some (eventItem f cfg clk env st r))"
proof -
  have a: "(fmlookup (idemItem cfg clk env) ''ttl'' \<noteq> None) = (0 <s IdemTTLDays cfg)"
    by (simp add: idemItem_def Let_def fmlookup_of_list)
  have b: "(fmlookup (eventItem f cfg clk env st r) ''ttl'' \<noteq> None) = (0 <s EventsTTLDays cfg)"
    by (simp add: eventItem_def Let_def fmlookup_of_list)
  have c: "persistEventOnce f cfg clk fault db env st r = (db', True, None) \<longrightarrow>
        fmlookup (idemItems db') (pkOf env) = Some (idemItem cfg clk env)
        \<and> fmlookup (eventsItems db') (TenantID env, skOf clk env) = Some (eventItem f cfg clk env st r)"
    by (simp add: persistEventOnce_True_iff dualWrite_def)
  from a b c show ?thesis by blast
qed

text \<open>
  With a retention of \<open>-1\<close> day for the deduplication table and 30 days for the ledger,
  the first item has no \<^verbatim>\<open>ttl\<close> and the second has one, and the call stores them.
\<close>

theorem ttl_only_for_positive_retention_witness:
  "fmlookup (idemItem exampleCfg exampleClock exampleEnv) ''ttl'' = None
   \<and> fmlookup (eventItem exampleFmt exampleCfg exampleClock exampleEnv ''READY'' []) ''ttl'' \<noteq> None
   \<and> persistEventOnce exampleFmt exampleCfg exampleClock None exampleStore exampleEnv ''READY'' []
       = (dualWrite exampleFmt exampleCfg exampleClock exampleStore exampleEnv ''READY'' [], True, None)
   \<and> fmlookup (idemItems (dualWrite exampleFmt exampleCfg exampleClock exampleStore exampleEnv ''READY'' []))
        (pkOf exampleEnv) = Some (idemItem exampleCfg exampleClock exampleEnv)"
  using ttl_only_for_positive_retention[of exampleCfg exampleClock exampleEnv exampleFmt "''READY''" "[]"
          None exampleStore "dualWrite exampleFmt exampleCfg exampleClock exampleStore exampleEnv ''READY'' []"]
        persistEventOnce_accepted[OF example_accepted, of exampleFmt "''READY''" "[]"]
  by (simp add: exampleCfg_def word_sless_alt)

section \<open>One dual write while the deduplication record lasts\<close>




















section \<open>A failing store call\<close>

lemma persistEventOnce_fault:
  "persistEventOnce f cfg clk (Some e) db env st r = (db, False, if isDuplicateError e then None else Some e)"
  by (simp add: persistEventOnce_def TransactWriteItems_def)

section \<open>The handler, step by step\<close>

lemma handleRecord_malformed:
  "Unmarshal lib (Body rec) = Inl e \<Longrightarrow> handleRecord lib wr w rec = (w, Some (InvalidJSON e))"
  by (simp add: handleRecord_def)

lemma handleRecord_missing:
  "Unmarshal lib (Body rec) = Inr env \<Longrightarrow> TenantID env = [] \<or> EventID env = [] \<or> EventType env = [] \<Longrightarrow>
   handleRecord lib wr w rec = (logLine (EnvPrinted env) w, Some MissingFields)"
  by (simp add: handleRecord_def Let_def)

lemma handleRecord_processed:
  assumes "Unmarshal lib (Body rec) = Inr env"
      and "TenantID env \<noteq> []" "EventID env \<noteq> []" "EventType env \<noteq> []"
      and "validate lib (schemas w) env = (byType, valid, reason)"
      and "wr (dynamo w) env (statusOf valid) reason = (db, ok, err)"
  shows "handleRecord lib wr w rec =
     (let w' = w\<lparr>dynamo := db, schemas := byType, logged := logged w @ [EnvPrinted env]\<rparr>
      in case err of
           Some e \<Rightarrow> (w', Some (PersistError e))
         | None \<Rightarrow>
             if \<not> ok then (logLine (DuplicateSkipped (TenantID env) (EventID env) (EventType env)) w', None)
             else if \<not> valid
             then (logLine (ProcessedWithReason ''INVALID'' reason (TenantID env) (EventID env) (EventType env)) w', None)
             else (logLine (Processed ''READY'' (TenantID env) (EventID env) (EventType env)) w', None))"
  using assms
  by (simp add: handleRecord_def Let_def logLine_def statusOf_def split: option.splits)

lemma validate_load_failure:
  "loadSchema lib byType (EventType env) = (c, Inl detail) \<Longrightarrow>
   validate lib byType env = (c, False, ''schema load error: '' @ detail)"
  by (simp add: validate_def)

lemma validate_evaluated:
  "loadSchema lib byType (EventType env) = (c, Inr schema) \<Longrightarrow> schema (Payload env) = Inr errs \<Longrightarrow>
   validate lib byType env = (c, errs = [], if errs = [] then [] else Join errs ''; '')"
  by (simp add: validate_def Valid_def)

lemma validate_valid_reason:
  "validate lib byType env = (c, True, reason) \<Longrightarrow> reason = []"
  by (auto simp: validate_def Valid_def split: prod.splits sum.splits if_splits)

lemma handleRecords_append:
  "handleRecords lib wr w (pre @ post) =
     (case handleRecords lib wr w pre of
        (w1, None) \<Rightarrow> handleRecords lib wr w1 post
      | (w1, Some e) \<Rightarrow> (w1, Some e))"
  by (induction pre arbitrary: w) (auto split: prod.splits option.splits)

section \<open>A missing or broken schema\<close>

lemma loadSchema_unreadable:
  "fmlookup byType t = None \<Longrightarrow> ReadFile lib (t @ ''.json'') = Inl e \<Longrightarrow>
   loadSchema lib byType t = (byType, Inl (''embed read schema '' @ t @ ''.json'' @ '': '' @ e))"
  by (simp add: loadSchema_def)

lemma loadSchema_uncompilable:
  "fmlookup byType t = None \<Longrightarrow> ReadFile lib (t @ ''.json'') = Inr b \<Longrightarrow> NewSchema lib b = Inl e \<Longrightarrow>
   loadSchema lib byType t = (byType, Inl (''compile schema: '' @ e))"
  by (simp add: loadSchema_def)

lemma loadSchema_failure_iff:
  "loadSchema lib byType t = (c, Inl detail) \<longleftrightarrow>
     c = byType \<and> fmlookup byType t = None \<and>
     ((\<exists>e. ReadFile lib (t @ ''.json'') = Inl e \<and> detail = ''embed read schema '' @ t @ ''.json'' @ '': '' @ e)
      \<or> (\<exists>b e. ReadFile lib (t @ ''.json'') = Inr b \<and> NewSchema lib b = Inl e \<and> detail = ''compile schema: '' @ e))"
  by (auto simp: loadSchema_def Let_def split: option.splits sum.splits)

text \<open>
  C3. When \<^const>\<open>loadSchema\<close> fails for the envelope's event type, which happens exactly
  when the type is not cached and its document cannot be read or cannot be compiled,
  \<^const>\<open>validate\<close> returns \<open>(false, "schema load error: " + detail)\<close> and the cache is
  unchanged. \<^const>\<open>handleRecord\<close> then calls the writer with status \<^verbatim>\<open>INVALID\<close> and
  that reason, and where the store accepts the write the event is in the ledger with
  status \<^verbatim>\<open>INVALID\<close> and the message is acknowledged.
\<close>

theorem schema_load_failure_recorded_as_invalid:
  assumes load: "loadSchema lib (schemas w) (EventType env) = (c, Inl detail)"
  shows "c = schemas w \<and> fmlookup (schemas w) (EventType env) = None
     \<and> ((\<exists>e. ReadFile lib (EventType env @ ''.json'') = Inl e
              \<and> detail = ''embed read schema '' @ EventType env @ ''.json'' @ '': '' @ e)
         \<or> (\<exists>b e. ReadFile lib (EventType env @ ''.json'') = Inr b \<and> NewSchema lib b = Inl e
              \<and> detail = ''compile schema: '' @ e))
     \<and> validate lib (schemas w) env = (schemas w, False, ''schema load error: '' @ detail)
     \<and> (Unmarshal lib (Body rec) = Inr env \<and> TenantID env \<noteq> [] \<and> EventID env \<noteq> [] \<and> EventType env \<noteq> []
         \<and> accepted cfg clk fault (dynamo w) env \<longrightarrow>
          handleRecord lib (persistEventOnce f cfg clk fault) w rec =
            (w\<lparr>dynamo := dualWrite f cfg clk (dynamo w) env ''INVALID'' (''schema load error: '' @ detail),
               logged := logged w @
                 [EnvPrinted env,
                  ProcessedWithReason ''INVALID'' (''schema load error: '' @ detail)
                    (TenantID env) (EventID env) (EventType env)]\<rparr>, None)
          \<and> fmlookup (eventsItems (dualWrite f cfg clk (dynamo w) env ''INVALID'' (''schema load error: '' @ detail)))
               (TenantID env, skOf clk env)
              = Some (eventItem f cfg clk env ''INVALID'' (''schema load error: '' @ detail))
          \<and> fmlookup (eventItem f cfg clk env ''INVALID'' (''schema load error: '' @ detail)) ''status''
              = Some (AttributeValueMemberS ''INVALID''))"
proof -
  from load have c: "c = schemas w" and rest: "fmlookup (schemas w) (EventType env) = None
     \<and> ((\<exists>e. ReadFile lib (EventType env @ ''.json'') = Inl e
              \<and> detail = ''embed read schema '' @ EventType env @ ''.json'' @ '': '' @ e)
         \<or> (\<exists>b e. ReadFile lib (EventType env @ ''.json'') = Inr b \<and> NewSchema lib b = Inl e
              \<and> detail = ''compile schema: '' @ e))"
    by (simp_all add: loadSchema_failure_iff)
  have v: "validate lib (schemas w) env = (schemas w, False, ''schema load error: '' @ detail)"
    using validate_load_failure[OF load] c by simp
  have st: "fmlookup (eventItem f cfg clk env ''INVALID'' (''schema load error: '' @ detail)) ''status''
              = Some (AttributeValueMemberS ''INVALID'')"
    by (simp add: eventItem_def Let_def fmlookup_of_list)
  have h: "Unmarshal lib (Body rec) = Inr env \<and> TenantID env \<noteq> [] \<and> EventID env \<noteq> [] \<and> EventType env \<noteq> []
         \<and> accepted cfg clk fault (dynamo w) env \<longrightarrow>
          handleRecord lib (persistEventOnce f cfg clk fault) w rec =
            (w\<lparr>dynamo := dualWrite f cfg clk (dynamo w) env ''INVALID'' (''schema load error: '' @ detail),
               logged := logged w @
                 [EnvPrinted env,
                  ProcessedWithReason ''INVALID'' (''schema load error: '' @ detail)
                    (TenantID env) (EventID env) (EventType env)]\<rparr>, None)"
  proof (intro impI, elim conjE)
    assume a: "Unmarshal lib (Body rec) = Inr env" "TenantID env \<noteq> []" "EventID env \<noteq> []" "EventType env \<noteq> []"
      and acc: "accepted cfg clk fault (dynamo w) env"
    have wr: "persistEventOnce f cfg clk fault (dynamo w) env (statusOf False) (''schema load error: '' @ detail)
        = (dualWrite f cfg clk (dynamo w) env ''INVALID'' (''schema load error: '' @ detail), True, None)"
      using persistEventOnce_accepted[OF acc] by (simp add: statusOf_def)
    show "handleRecord lib (persistEventOnce f cfg clk fault) w rec =
            (w\<lparr>dynamo := dualWrite f cfg clk (dynamo w) env ''INVALID'' (''schema load error: '' @ detail),
               logged := logged w @
                 [EnvPrinted env,
                  ProcessedWithReason ''INVALID'' (''schema load error: '' @ detail)
                    (TenantID env) (EventID env) (EventType env)]\<rparr>, None)"
      using handleRecord_processed[where wr = "persistEventOnce f cfg clk fault", OF a v wr]
      by (simp add: logLine_def)
  qed
  have k: "fmlookup (eventsItems (dualWrite f cfg clk (dynamo w) env ''INVALID'' (''schema load error: '' @ detail)))
               (TenantID env, skOf clk env)
              = Some (eventItem f cfg clk env ''INVALID'' (''schema load error: '' @ detail))"
    by (simp add: dualWrite_def)
  from c rest v h k st show ?thesis by blast
qed

lemma unknown_load:
  "loadSchema exampleLib (schemas exampleWorld) (EventType unknownEnv)
     = (fmempty, Inl ''embed read schema order.shipped.json: open order.shipped.json: file does not exist'')"
  by (simp add: loadSchema_def exampleLib_def exampleWorld_def unknownEnv_def)

lemma unknown_accepted: "accepted exampleCfg exampleClock None (dynamo exampleWorld) unknownEnv"
  by (simp add: accepted_def exampleCfg_def exampleStore_def exampleWorld_def slotFree_def)

text \<open>
  An event of type \<^verbatim>\<open>order.shipped\<close>, for which there is no schema document.
\<close>

theorem schema_load_failure_recorded_as_invalid_witness:
  "validate exampleLib (schemas exampleWorld) unknownEnv
     = (fmempty, False,
        ''schema load error: embed read schema order.shipped.json: open order.shipped.json: file does not exist'')
   \<and> snd (handleRecord exampleLib (persistEventOnce exampleFmt exampleCfg exampleClock None) exampleWorld
        \<lparr>Body = unknownBody\<rparr>) = None
   \<and> fmlookup (eventsItems (dynamo (fst (handleRecord exampleLib
        (persistEventOnce exampleFmt exampleCfg exampleClock None) exampleWorld \<lparr>Body = unknownBody\<rparr>))))
        (''t1'', ''2025-01-01T00:00:00.000000003Z#e7'')
      = Some (eventItem exampleFmt exampleCfg exampleClock unknownEnv ''INVALID''
        ''schema load error: embed read schema order.shipped.json: open order.shipped.json: file does not exist'')"
proof -
  have u: "Unmarshal exampleLib (Body \<lparr>Body = unknownBody\<rparr>) = Inr unknownEnv"
    by (simp add: exampleLib_def unknownBody_def exampleBody_def)
  have ne: "TenantID unknownEnv \<noteq> []" "EventID unknownEnv \<noteq> []" "EventType unknownEnv \<noteq> []"
    by (simp_all add: unknownEnv_def)
  have sk: "(TenantID unknownEnv, skOf exampleClock unknownEnv) = (''t1'', ''2025-01-01T00:00:00.000000003Z#e7'')"
    by (simp add: skOf_def createdOf_def unknownEnv_def exampleClock_def)
  show ?thesis
    using schema_load_failure_recorded_as_invalid[OF unknown_load,
        where rec = "\<lparr>Body = unknownBody\<rparr>" and cfg = exampleCfg and clk = exampleClock and fault = None
          and f = exampleFmt]
      u ne unknown_accepted sk
    by (simp add: exampleWorld_def)
qed

section \<open>Validation verdict, early rejection, duplicates\<close>

text \<open>
  C4. When the schema loads and evaluates the payload without error, \<^const>\<open>validate\<close>
  returns valid exactly when the schema reports no error, then with the empty reason;
  otherwise the reason is the reported errors in their order, joined by \<^verbatim>\<open>"; "\<close>. The
  reason is a function of the reported errors.
\<close>

theorem validate_reports_schema_errors:
  assumes "loadSchema lib byType (EventType env) = (c, Inr schema)"
      and "schema (Payload env) = Inr errs"
  shows "validate lib byType env = (c, errs = [], if errs = [] then [] else Join errs ''; '')
       \<and> Join [] ''; '' = []
       \<and> (\<forall>x. Join [x] ''; '' = x)
       \<and> (\<forall>x y ys. Join (x # y # ys) ''; '' = x @ ''; '' @ Join (y # ys) ''; '')"
  using validate_evaluated[OF assms] by simp

lemma user_created_load:
  "loadSchema exampleLib fmempty ''user.created'' = (fmupd ''user.created'' userCreatedSchema fmempty, Inr userCreatedSchema)"
  by (simp add: loadSchema_def exampleLib_def)

text \<open>
  A payload without \<^verbatim>\<open>id\<close> and \<^verbatim>\<open>email\<close> gives both messages in the schema's order;
  the payload of the tests is valid.
\<close>

theorem validate_reports_schema_errors_witness:
  "validate exampleLib fmempty incompleteEnv
     = (fmupd ''user.created'' userCreatedSchema fmempty, False,
        ''(root): id is required; (root): email is required'')
   \<and> validate exampleLib fmempty exampleEnv
     = (fmupd ''user.created'' userCreatedSchema fmempty, True, [])"
proof -
  have l1: "loadSchema exampleLib fmempty (EventType incompleteEnv)
      = (fmupd ''user.created'' userCreatedSchema fmempty, Inr userCreatedSchema)"
    using user_created_load by (simp add: incompleteEnv_def)
  have l2: "loadSchema exampleLib fmempty (EventType exampleEnv)
      = (fmupd ''user.created'' userCreatedSchema fmempty, Inr userCreatedSchema)"
    using user_created_load by (simp add: exampleEnv_def)
  have s1: "userCreatedSchema (Payload incompleteEnv) = Inr [''(root): id is required'', ''(root): email is required'']"
    by (simp add: userCreatedSchema_def requiredErrors_def incompleteEnv_def)
  have s2: "userCreatedSchema (Payload exampleEnv) = Inr []"
    by (simp add: userCreatedSchema_def requiredErrors_def exampleEnv_def)
  show ?thesis
    using validate_reports_schema_errors[OF l1 s1] validate_reports_schema_errors[OF l2 s2]
    by simp
qed

text \<open>
  C6. A body that \<^verbatim>\<open>json.Unmarshal\<close> rejects makes \<^const>\<open>handleRecord\<close> return the
  error with the world untouched; an envelope with an empty \<^verbatim>\<open>tenant_id\<close>,
  \<^verbatim>\<open>event_id\<close> or \<^verbatim>\<open>event_type\<close> makes it return an error after printing the envelope.
  In both cases the result holds for every writer and every schema library, and the
  store and the schema cache are as before: neither validation nor persistence has run.
\<close>

theorem handleRecord_rejects_before_validation:
  "(Unmarshal lib (Body rec) = Inl e \<longrightarrow>
      handleRecord lib wr w rec = (w, Some (InvalidJSON e)))
   \<and> (Unmarshal lib (Body rec) = Inr env
       \<and> (TenantID env = [] \<or> EventID env = [] \<or> EventType env = []) \<longrightarrow>
      handleRecord lib wr w rec = (w\<lparr>logged := logged w @ [EnvPrinted env]\<rparr>, Some MissingFields)
      \<and> dynamo (fst (handleRecord lib wr w rec)) = dynamo w
      \<and> schemas (fst (handleRecord lib wr w rec)) = schemas w)"
  using handleRecord_malformed[of lib rec e wr w] handleRecord_missing[of lib rec env wr w]
  by (auto simp: logLine_def)

text \<open>
  With a writer that would replace the store and fail, a truncated body and an envelope
  without tenant are rejected and the store is as before.
\<close>

theorem handleRecord_rejects_before_validation_witness:
  "handleRecord exampleLib failingWriter exampleWorld \<lparr>Body = ''{not json''\<rparr>
     = (exampleWorld, Some (InvalidJSON ''unexpected end of JSON input''))
   \<and> handleRecord exampleLib failingWriter exampleWorld \<lparr>Body = anonymousBody\<rparr>
     = (exampleWorld\<lparr>logged := [EnvPrinted anonymousEnv]\<rparr>, Some MissingFields)"
proof -
  have u1: "Unmarshal exampleLib (Body \<lparr>Body = ''{not json''\<rparr>) = Inl ''unexpected end of JSON input''"
    by (simp add: exampleLib_def exampleBody_def unknownBody_def incompleteBody_def anonymousBody_def)
  have u2: "Unmarshal exampleLib (Body \<lparr>Body = anonymousBody\<rparr>) = Inr anonymousEnv"
    by (simp add: exampleLib_def exampleBody_def unknownBody_def incompleteBody_def anonymousBody_def)
  have m: "TenantID anonymousEnv = []" by (simp add: anonymousEnv_def)
  show ?thesis
    using handleRecord_rejects_before_validation[of exampleLib "\<lparr>Body = ''{not json''\<rparr>"
        "''unexpected end of JSON input''" failingWriter exampleWorld anonymousEnv]
      handleRecord_rejects_before_validation[of exampleLib "\<lparr>Body = anonymousBody\<rparr>"
        "''x''" failingWriter exampleWorld anonymousEnv]
      u1 u2 m
    by (simp add: exampleWorld_def)
qed

text \<open>
  C8. Whenever the writer, called with the envelope, the derived status and the reason,
  returns \<open>(false, nil)\<close>, \<^const>\<open>handleRecord\<close> logs the duplicate and returns \<open>nil\<close>,
  whatever the verdict of the validation was.
\<close>

theorem duplicate_is_acknowledged:
  assumes "Unmarshal lib (Body rec) = Inr env"
      and "TenantID env \<noteq> []" "EventID env \<noteq> []" "EventType env \<noteq> []"
      and "validate lib (schemas w) env = (byType, valid, reason)"
      and "wr (dynamo w) env (statusOf valid) reason = (db, False, None)"
  shows "handleRecord lib wr w rec =
     (w\<lparr>dynamo := db, schemas := byType,
        logged := logged w @ [EnvPrinted env, DuplicateSkipped (TenantID env) (EventID env) (EventType env)]\<rparr>,
      None)"
  using handleRecord_processed[where wr = wr, OF assms] by (simp add: logLine_def)

text \<open>
  The writer of \<^verbatim>\<open>TestHandler_DuplicateAck\<close>, on a valid and on an invalid event.
\<close>

theorem duplicate_is_acknowledged_witness:
  "snd (handleRecord exampleLib duplicateWriter exampleWorld \<lparr>Body = exampleBody\<rparr>) = None
   \<and> snd (handleRecord exampleLib duplicateWriter exampleWorld \<lparr>Body = incompleteBody\<rparr>) = None"
proof -
  have u1: "Unmarshal exampleLib (Body \<lparr>Body = exampleBody\<rparr>) = Inr exampleEnv"
    by (simp add: exampleLib_def)
  have u2: "Unmarshal exampleLib (Body \<lparr>Body = incompleteBody\<rparr>) = Inr incompleteEnv"
    by (simp add: exampleLib_def exampleBody_def incompleteBody_def unknownBody_def)
  have n1: "TenantID exampleEnv \<noteq> []" "EventID exampleEnv \<noteq> []" "EventType exampleEnv \<noteq> []"
    by (simp_all add: exampleEnv_def)
  have n2: "TenantID incompleteEnv \<noteq> []" "EventID incompleteEnv \<noteq> []" "EventType incompleteEnv \<noteq> []"
    by (simp_all add: incompleteEnv_def)
  obtain c1 v1 r1 where v1: "validate exampleLib (schemas exampleWorld) exampleEnv = (c1, v1, r1)"
    by (cases "validate exampleLib (schemas exampleWorld) exampleEnv") auto
  obtain c2 v2 r2 where v2: "validate exampleLib (schemas exampleWorld) incompleteEnv = (c2, v2, r2)"
    by (cases "validate exampleLib (schemas exampleWorld) incompleteEnv") auto
  have d1: "duplicateWriter (dynamo exampleWorld) exampleEnv (statusOf v1) r1 = (dynamo exampleWorld, False, None)"
    by (simp add: duplicateWriter_def)
  have d2: "duplicateWriter (dynamo exampleWorld) incompleteEnv (statusOf v2) r2 = (dynamo exampleWorld, False, None)"
    by (simp add: duplicateWriter_def)
  show ?thesis
    using duplicate_is_acknowledged[where wr = duplicateWriter, OF u1 n1 v1 d1]
          duplicate_is_acknowledged[where wr = duplicateWriter, OF u2 n2 v2 d2]
    by simp
qed

section \<open>Batches\<close>

lemma handler_Nil: "handler lib wr w \<lparr>Records = []\<rparr> = (w, None)"
  by (simp add: handler_def)

lemma handler_stop:
  "handler lib wr w \<lparr>Records = pre\<rparr> = (w1, None) \<Longrightarrow> handleRecord lib wr w1 rec = (w2, Some err) \<Longrightarrow>
   handler lib wr w \<lparr>Records = pre @ rec # post\<rparr> = (logLine (RecordFailed err) w2, Some err)"
  by (simp add: handler_def handleRecords_append)

lemma handler_continue:
  "handler lib wr w \<lparr>Records = pre\<rparr> = (w1, None) \<Longrightarrow> handleRecord lib wr w1 rec = (w2, None) \<Longrightarrow>
   handler lib wr w \<lparr>Records = pre @ rec # post\<rparr> = handler lib wr w2 \<lparr>Records = post\<rparr>"
  by (simp add: handler_def handleRecords_append)

lemma handleRecords_failure:
  "handleRecords lib wr w recs = (w', Some err) \<Longrightarrow>
   \<exists>pre rec post w1 w2. recs = pre @ rec # post \<and> handleRecords lib wr w pre = (w1, None)
      \<and> handleRecord lib wr w1 rec = (w2, Some err) \<and> w' = logLine (RecordFailed err) w2"
proof (induction recs arbitrary: w)
  case Nil
  then show ?case by simp
next
  case (Cons r rs)
  obtain wa res where step: "handleRecord lib wr w r = (wa, res)"
    by (cases "handleRecord lib wr w r") auto
  show ?case
  proof (cases res)
    case None
    with Cons.prems step have "handleRecords lib wr wa rs = (w', Some err)" by simp
    from Cons.IH[OF this] obtain pre rec post w1 w2 where
      d: "rs = pre @ rec # post" "handleRecords lib wr wa pre = (w1, None)"
         "handleRecord lib wr w1 rec = (w2, Some err)" "w' = logLine (RecordFailed err) w2"
      by blast
    have "r # rs = (r # pre) @ rec # post" using d(1) by simp
    moreover have "handleRecords lib wr w (r # pre) = (w1, None)" using step None d(2) by simp
    ultimately show ?thesis using d(3,4) by blast
  next
    case (Some e)
    with Cons.prems step have "e = err" "w' = logLine (RecordFailed err) wa" by auto
    moreover have "r # rs = [] @ r # rs" by simp
    moreover have "handleRecords lib wr w [] = (w, None)" by simp
    ultimately show ?thesis using step Some by blast
  qed
qed

lemma handleRecords_success:
  "handleRecords lib wr w (pre @ rec # post) = (w', None) \<Longrightarrow>
   \<exists>w1 w2. handleRecords lib wr w pre = (w1, None) \<and> handleRecord lib wr w1 rec = (w2, None)
      \<and> handleRecords lib wr w2 post = (w', None)"
  by (auto simp: handleRecords_append split: prod.splits option.splits)

text \<open>
  C7. \<^const>\<open>handler\<close> processes the records in delivery order, each against the world
  its predecessors left: if the records before \<open>rec\<close> succeed and \<open>rec\<close> fails, the handler
  returns that failure and the world after \<open>rec\<close> (plus the log line), whatever records
  follow; every failure it returns arises so; and it returns \<open>nil\<close> exactly by every
  record succeeding in turn.
\<close>

theorem handler_stops_at_first_failure:
  "handler lib wr w \<lparr>Records = []\<rparr> = (w, None)
   \<and> (handler lib wr w \<lparr>Records = pre\<rparr> = (w1, None) \<and> handleRecord lib wr w1 rec = (w2, Some err) \<longrightarrow>
        handler lib wr w \<lparr>Records = pre @ rec # post\<rparr> = (logLine (RecordFailed err) w2, Some err))
   \<and> (handler lib wr w \<lparr>Records = pre\<rparr> = (w1, None) \<and> handleRecord lib wr w1 rec = (w2, None) \<longrightarrow>
        handler lib wr w \<lparr>Records = pre @ [rec]\<rparr> = (w2, None))
   \<and> (handler lib wr w \<lparr>Records = recs\<rparr> = (w', Some err) \<longrightarrow>
        (\<exists>pre rec post w1 w2. recs = pre @ rec # post
           \<and> handler lib wr w \<lparr>Records = pre\<rparr> = (w1, None)
           \<and> handleRecord lib wr w1 rec = (w2, Some err)
           \<and> w' = logLine (RecordFailed err) w2))
   \<and> (handler lib wr w \<lparr>Records = pre @ rec # post\<rparr> = (w', None) \<longrightarrow>
        (\<exists>w1 w2. handler lib wr w \<lparr>Records = pre\<rparr> = (w1, None)
           \<and> handleRecord lib wr w1 rec = (w2, None)
           \<and> handler lib wr w2 \<lparr>Records = post\<rparr> = (w', None)))"
proof -
  have 1: "handler lib wr w \<lparr>Records = []\<rparr> = (w, None)" by (rule handler_Nil)
  have 2: "handler lib wr w \<lparr>Records = pre\<rparr> = (w1, None) \<and> handleRecord lib wr w1 rec = (w2, Some err) \<longrightarrow>
        handler lib wr w \<lparr>Records = pre @ rec # post\<rparr> = (logLine (RecordFailed err) w2, Some err)"
    using handler_stop by blast
  have 3: "handler lib wr w \<lparr>Records = pre\<rparr> = (w1, None) \<and> handleRecord lib wr w1 rec = (w2, None) \<longrightarrow>
        handler lib wr w \<lparr>Records = pre @ [rec]\<rparr> = (w2, None)"
    using handler_continue[of lib wr w pre w1 rec w2 "[]"] by (simp add: handler_Nil)
  have 4: "handler lib wr w \<lparr>Records = recs\<rparr> = (w', Some err) \<longrightarrow>
        (\<exists>pre rec post w1 w2. recs = pre @ rec # post
           \<and> handler lib wr w \<lparr>Records = pre\<rparr> = (w1, None)
           \<and> handleRecord lib wr w1 rec = (w2, Some err)
           \<and> w' = logLine (RecordFailed err) w2)"
    using handleRecords_failure[of lib wr w recs w' err] by (simp add: handler_def)
  have 5: "handler lib wr w \<lparr>Records = pre @ rec # post\<rparr> = (w', None) \<longrightarrow>
        (\<exists>w1 w2. handler lib wr w \<lparr>Records = pre\<rparr> = (w1, None)
           \<and> handleRecord lib wr w1 rec = (w2, None)
           \<and> handler lib wr w2 \<lparr>Records = post\<rparr> = (w', None))"
    using handleRecords_success[of lib wr w pre rec post w'] by (simp add: handler_def)
  from 1 2 3 4 5 show ?thesis by blast
qed

lemma example_first:
  "handleRecord exampleLib exampleWriter exampleWorld \<lparr>Body = exampleBody\<rparr>
    = (\<lparr>dynamo = dualWrite exampleFmt exampleCfg exampleClock exampleStore exampleEnv ''READY'' [],
        schemas = fmupd ''user.created'' userCreatedSchema fmempty,
        logged = [EnvPrinted exampleEnv, Processed ''READY'' ''t1'' ''e1'' ''user.created'']\<rparr>, None)"
proof -
  have u: "Unmarshal exampleLib (Body \<lparr>Body = exampleBody\<rparr>) = Inr exampleEnv"
    by (simp add: exampleLib_def)
  have n: "TenantID exampleEnv \<noteq> []" "EventID exampleEnv \<noteq> []" "EventType exampleEnv \<noteq> []"
    by (simp_all add: exampleEnv_def)
  have l: "loadSchema exampleLib (schemas exampleWorld) (EventType exampleEnv)
      = (fmupd ''user.created'' userCreatedSchema fmempty, Inr userCreatedSchema)"
    using user_created_load by (simp add: exampleEnv_def exampleWorld_def)
  have s: "userCreatedSchema (Payload exampleEnv) = Inr []"
    by (simp add: userCreatedSchema_def requiredErrors_def exampleEnv_def)
  have v: "validate exampleLib (schemas exampleWorld) exampleEnv
      = (fmupd ''user.created'' userCreatedSchema fmempty, True, [])"
    using validate_evaluated[OF l s] by simp
  have w: "exampleWriter (dynamo exampleWorld) exampleEnv (statusOf True) []
      = (dualWrite exampleFmt exampleCfg exampleClock exampleStore exampleEnv ''READY'' [], True, None)"
    using persistEventOnce_accepted[OF example_accepted, of exampleFmt "''READY''" "[]"]
    by (simp add: exampleWriter_def exampleWorld_def statusOf_def)
  show ?thesis
    using handleRecord_processed[where wr = exampleWriter, OF u n v w]
    by (simp add: logLine_def exampleWorld_def exampleEnv_def)
qed

text \<open>
  A batch of three: the first is written, the second lacks its tenant, the third is never
  looked at (nothing of it is printed, cached or stored).
\<close>

theorem handler_stops_at_first_failure_witness:
  "handler exampleLib exampleWriter exampleWorld
      \<lparr>Records = [\<lparr>Body = exampleBody\<rparr>, \<lparr>Body = anonymousBody\<rparr>, \<lparr>Body = unknownBody\<rparr>]\<rparr>
    = (\<lparr>dynamo = dualWrite exampleFmt exampleCfg exampleClock exampleStore exampleEnv ''READY'' [],
        schemas = fmupd ''user.created'' userCreatedSchema fmempty,
        logged = [EnvPrinted exampleEnv, Processed ''READY'' ''t1'' ''e1'' ''user.created'',
                  EnvPrinted anonymousEnv, RecordFailed MissingFields]\<rparr>, Some MissingFields)"
proof -
  let ?w1 = "\<lparr>dynamo = dualWrite exampleFmt exampleCfg exampleClock exampleStore exampleEnv ''READY'' [],
        schemas = fmupd ''user.created'' userCreatedSchema fmempty,
        logged = [EnvPrinted exampleEnv, Processed ''READY'' ''t1'' ''e1'' ''user.created'']\<rparr>"
  have pre: "handler exampleLib exampleWriter exampleWorld \<lparr>Records = [\<lparr>Body = exampleBody\<rparr>]\<rparr> = (?w1, None)"
    using example_first by (simp add: handler_def)
  have u2: "Unmarshal exampleLib (Body \<lparr>Body = anonymousBody\<rparr>) = Inr anonymousEnv"
    by (simp add: exampleLib_def exampleBody_def unknownBody_def incompleteBody_def anonymousBody_def)
  have bad: "handleRecord exampleLib exampleWriter ?w1 \<lparr>Body = anonymousBody\<rparr>
      = (?w1\<lparr>logged := logged ?w1 @ [EnvPrinted anonymousEnv]\<rparr>, Some MissingFields)"
    using handleRecord_missing[OF u2, of exampleWriter ?w1] by (simp add: anonymousEnv_def logLine_def)
  show ?thesis
    using handler_stops_at_first_failure[of exampleLib exampleWriter exampleWorld "[\<lparr>Body = exampleBody\<rparr>]"
        ?w1 "\<lparr>Body = anonymousBody\<rparr>" "?w1\<lparr>logged := logged ?w1 @ [EnvPrinted anonymousEnv]\<rparr>"
        MissingFields "[\<lparr>Body = unknownBody\<rparr>]"] pre bad
    by (simp add: logLine_def)
qed

section \<open>A failure taken for a duplicate\<close>

text \<open>
  C2. The claim holds for the errors a failed precondition produces and for errors whose
  text lacks the word \<^verbatim>\<open>ConditionalCheckFailed\<close>, but the test of line 177 looks for
  that word anywhere in the text. In a deployment whose table names contain it, a call
  the role is not allowed to make fails with an error that is no failed precondition, for
  an event never seen; \<^const>\<open>persistEventOnce\<close> returns \<open>(false, nil)\<close> and
  \<^const>\<open>handleRecord\<close> acknowledges the message as a duplicate with nothing stored. The
  same failure in the deployment with the names \<^verbatim>\<open>events\<close> and \<^verbatim>\<open>idempotency\<close> is
  returned as \<open>(false, err)\<close>.
\<close>

theorem access_denied_acknowledged_as_duplicate:
  "\<not> preconditionFailure (accessDenied (IdemTable auditCfg))
   \<and> fmlookup (idemItems auditStore) (pkOf exampleEnv) = None
   \<and> persistEventOnce exampleFmt auditCfg exampleClock (Some (accessDenied (IdemTable auditCfg)))
        auditStore exampleEnv ''READY'' []
      = (auditStore, False, None)
   \<and> handleRecord exampleLib
        (persistEventOnce exampleFmt auditCfg exampleClock (Some (accessDenied (IdemTable auditCfg))))
        \<lparr>dynamo = auditStore, schemas = fmempty, logged = []\<rparr> \<lparr>Body = exampleBody\<rparr>
      = (\<lparr>dynamo = auditStore, schemas = fmupd ''user.created'' userCreatedSchema fmempty,
          logged = [EnvPrinted exampleEnv, DuplicateSkipped ''t1'' ''e1'' ''user.created'']\<rparr>, None)
   \<and> persistEventOnce exampleFmt exampleCfg exampleClock (Some (accessDenied (IdemTable exampleCfg)))
        exampleStore exampleEnv ''READY'' []
      = (exampleStore, False, Some (accessDenied ''idempotency''))"
proof -
  have a: "\<not> preconditionFailure (accessDenied (IdemTable auditCfg))"
    by (simp add: preconditionFailure_def accessDenied_def)
  have b: "fmlookup (idemItems auditStore) (pkOf exampleEnv) = None"
    by (simp add: auditStore_def)
  have d: "isDuplicateError (accessDenied (IdemTable auditCfg))"
    by (simp add: isDuplicateError_def accessDenied_def auditCfg_def)
  have c: "persistEventOnce exampleFmt auditCfg exampleClock (Some (accessDenied (IdemTable auditCfg)))
        auditStore exampleEnv ''READY'' [] = (auditStore, False, None)"
    using d by (simp add: persistEventOnce_fault)
  have u: "Unmarshal exampleLib (Body \<lparr>Body = exampleBody\<rparr>) = Inr exampleEnv"
    by (simp add: exampleLib_def)
  have n: "TenantID exampleEnv \<noteq> []" "EventID exampleEnv \<noteq> []" "EventType exampleEnv \<noteq> []"
    by (simp_all add: exampleEnv_def)
  have l: "loadSchema exampleLib (schemas \<lparr>dynamo = auditStore, schemas = fmempty, logged = []\<rparr>) (EventType exampleEnv)
      = (fmupd ''user.created'' userCreatedSchema fmempty, Inr userCreatedSchema)"
    using user_created_load by (simp add: exampleEnv_def)
  have s: "userCreatedSchema (Payload exampleEnv) = Inr []"
    by (simp add: userCreatedSchema_def requiredErrors_def exampleEnv_def)
  have v: "validate exampleLib (schemas \<lparr>dynamo = auditStore, schemas = fmempty, logged = []\<rparr>) exampleEnv
      = (fmupd ''user.created'' userCreatedSchema fmempty, True, [])"
    using validate_evaluated[OF l s] by simp
  have w: "persistEventOnce exampleFmt auditCfg exampleClock (Some (accessDenied (IdemTable auditCfg)))
        (dynamo \<lparr>dynamo = auditStore, schemas = fmempty, logged = []\<rparr>) exampleEnv (statusOf True) []
      = (auditStore, False, None)"
    using c by (simp add: statusOf_def)
  have h: "handleRecord exampleLib
        (persistEventOnce exampleFmt auditCfg exampleClock (Some (accessDenied (IdemTable auditCfg))))
        \<lparr>dynamo = auditStore, schemas = fmempty, logged = []\<rparr> \<lparr>Body = exampleBody\<rparr>
      = (\<lparr>dynamo = auditStore, schemas = fmupd ''user.created'' userCreatedSchema fmempty,
          logged = [EnvPrinted exampleEnv, DuplicateSkipped ''t1'' ''e1'' ''user.created'']\<rparr>, None)"
    using handleRecord_processed[where wr = "persistEventOnce exampleFmt auditCfg exampleClock
        (Some (accessDenied (IdemTable auditCfg)))", OF u n v w]
    by (simp add: logLine_def exampleEnv_def)
  have nd: "\<not> isDuplicateError (accessDenied (IdemTable exampleCfg))"
    by (simp add: isDuplicateError_def accessDenied_def exampleCfg_def)
  have e: "persistEventOnce exampleFmt exampleCfg exampleClock (Some (accessDenied (IdemTable exampleCfg)))
        exampleStore exampleEnv ''READY'' [] = (exampleStore, False, Some (accessDenied ''idempotency''))"
    using nd by (simp add: persistEventOnce_fault) (simp add: exampleCfg_def)
  from a b c h e show ?thesis by blast
qed

section \<open>The reason attribute\<close>

lemma eventItem_reason:
  "fmlookup (eventItem f cfg clk env st r) ''reason'' = (if r = [] then None else Some (AttributeValueMemberS r))"
  by (simp add: eventItem_def Let_def fmlookup_of_list)

lemma eventItem_status:
  "fmlookup (eventItem f cfg clk env st r) ''status'' = Some (AttributeValueMemberS st)"
  by (simp add: eventItem_def Let_def fmlookup_of_list)

lemma Join_not_empty: "errs \<noteq> [] \<Longrightarrow> [] \<notin> set errs \<Longrightarrow> Join errs sep \<noteq> []"
  by (induction errs sep rule: Join.induct) auto

lemma validate_reason_iff:
  assumes texts: "\<forall>c schema. loadSchema lib byType (EventType env) = (c, Inr schema) \<longrightarrow>
                    noEmptyText (schema (Payload env))"
      and v: "validate lib byType env = (c', valid, reason)"
  shows "(reason \<noteq> []) = (\<not> valid)"
proof -
  obtain c res where l: "loadSchema lib byType (EventType env) = (c, res)"
    by (cases "loadSchema lib byType (EventType env)") auto
  show ?thesis
  proof (cases res)
    case (Inl detail)
    with l v show ?thesis by (auto simp: validate_def)
  next
    case (Inr schema)
    with l texts have t: "noEmptyText (schema (Payload env))" by blast
    show ?thesis
    proof (cases "schema (Payload env)")
      case (Inl err)
      with l Inr v t show ?thesis by (auto simp: validate_def noEmptyText_def)
    next
      case ans: (Inr errs)
      with l Inr v t show ?thesis
        by (auto simp: validate_def noEmptyText_def Valid_def Join_not_empty split: if_splits)
    qed
  qed
qed

text \<open>
  C9. \<^const>\<open>persistEventOnce\<close> is called at one place, in \<^const>\<open>handleRecord\<close>, with the
  status and the reason the validation gives. In every ledger record written there the
  status is \<^verbatim>\<open>READY\<close> or \<^verbatim>\<open>INVALID\<close>, and the \<^verbatim>\<open>reason\<close> attribute is present exactly
  when the status is \<^verbatim>\<open>INVALID\<close> and absent exactly when it is \<^verbatim>\<open>READY\<close>, provided the
  schema's answer for the payload carries no empty text.
\<close>

theorem reason_present_iff_invalid:
  assumes u: "Unmarshal lib (Body rec) = Inr env"
      and n: "TenantID env \<noteq> []" "EventID env \<noteq> []" "EventType env \<noteq> []"
      and acc: "accepted cfg clk fault (dynamo w) env"
      and texts: "\<forall>c schema. loadSchema lib (schemas w) (EventType env) = (c, Inr schema) \<longrightarrow>
                    noEmptyText (schema (Payload env))"
  shows "\<exists>item.
           eventsItems (dynamo (fst (handleRecord lib (persistEventOnce f cfg clk fault) w rec)))
             = fmupd (TenantID env, skOf clk env) item (eventsItems (dynamo w))
         \<and> (fmlookup item ''status'' = Some (AttributeValueMemberS ''READY'')
             \<or> fmlookup item ''status'' = Some (AttributeValueMemberS ''INVALID''))
         \<and> (fmlookup item ''reason'' \<noteq> None) = (fmlookup item ''status'' = Some (AttributeValueMemberS ''INVALID''))
         \<and> (fmlookup item ''reason'' = None) = (fmlookup item ''status'' = Some (AttributeValueMemberS ''READY''))"
proof -
  obtain c valid reason where v: "validate lib (schemas w) env = (c, valid, reason)"
    by (cases "validate lib (schemas w) env") auto
  have r: "(reason \<noteq> []) = (\<not> valid)" by (rule validate_reason_iff[OF texts v])
  have wr: "persistEventOnce f cfg clk fault (dynamo w) env (statusOf valid) reason
      = (dualWrite f cfg clk (dynamo w) env (statusOf valid) reason, True, None)"
    by (rule persistEventOnce_accepted[OF acc])
  let ?item = "eventItem f cfg clk env (statusOf valid) reason"
  have k: "eventsItems (dynamo (fst (handleRecord lib (persistEventOnce f cfg clk fault) w rec)))
             = fmupd (TenantID env, skOf clk env) ?item (eventsItems (dynamo w))"
    using handleRecord_processed[where wr = "persistEventOnce f cfg clk fault", OF u n v wr]
    by (simp add: logLine_def dualWrite_def Let_def)
  have s: "fmlookup ?item ''status'' = Some (AttributeValueMemberS ''READY'')
             \<or> fmlookup ?item ''status'' = Some (AttributeValueMemberS ''INVALID'')"
    by (simp add: eventItem_status statusOf_def)
  have i: "(fmlookup ?item ''reason'' \<noteq> None) = (fmlookup ?item ''status'' = Some (AttributeValueMemberS ''INVALID''))"
    using r by (simp add: eventItem_status eventItem_reason statusOf_def)
  have j: "(fmlookup ?item ''reason'' = None) = (fmlookup ?item ''status'' = Some (AttributeValueMemberS ''READY''))"
    using r by (simp add: eventItem_status eventItem_reason statusOf_def)
  show ?thesis
  proof (intro exI[of _ ?item] conjI)
    show "eventsItems (dynamo (fst (handleRecord lib (persistEventOnce f cfg clk fault) w rec)))
             = fmupd (TenantID env, skOf clk env) ?item (eventsItems (dynamo w))" by (rule k)
    show "fmlookup ?item ''status'' = Some (AttributeValueMemberS ''READY'')
             \<or> fmlookup ?item ''status'' = Some (AttributeValueMemberS ''INVALID'')" by (rule s)
    show "(fmlookup ?item ''reason'' \<noteq> None) = (fmlookup ?item ''status'' = Some (AttributeValueMemberS ''INVALID''))"
      by (rule i)
    show "(fmlookup ?item ''reason'' = None) = (fmlookup ?item ''status'' = Some (AttributeValueMemberS ''READY''))"
      by (rule j)
  qed
qed

lemma incomplete_texts:
  "\<forall>c schema. loadSchema exampleLib (schemas exampleWorld) (EventType incompleteEnv) = (c, Inr schema) \<longrightarrow>
      noEmptyText (schema (Payload incompleteEnv))"
proof -
  have "loadSchema exampleLib (schemas exampleWorld) (EventType incompleteEnv)
      = (fmupd ''user.created'' userCreatedSchema fmempty, Inr userCreatedSchema)"
    using user_created_load by (simp add: incompleteEnv_def exampleWorld_def)
  moreover have "noEmptyText (userCreatedSchema (Payload incompleteEnv))"
    by (simp add: noEmptyText_def userCreatedSchema_def requiredErrors_def incompleteEnv_def)
  ultimately show ?thesis by simp
qed

lemma incomplete_accepted: "accepted exampleCfg exampleClock None (dynamo exampleWorld) incompleteEnv"
  by (simp add: accepted_def exampleCfg_def exampleStore_def exampleWorld_def slotFree_def)

text \<open>An event without \<^verbatim>\<open>id\<close> and \<^verbatim>\<open>email\<close>: its record is the one written.\<close>

theorem reason_present_iff_invalid_witness:
  "\<exists>item.
     eventsItems (dynamo (fst (handleRecord exampleLib (persistEventOnce exampleFmt exampleCfg exampleClock None)
         exampleWorld \<lparr>Body = incompleteBody\<rparr>)))
       = fmupd (''t1'', ''2025-01-01T00:00:00.000000003Z#e8'') item fmempty
     \<and> (fmlookup item ''reason'' \<noteq> None) = (fmlookup item ''status'' = Some (AttributeValueMemberS ''INVALID''))"
proof -
  have u: "Unmarshal exampleLib (Body \<lparr>Body = incompleteBody\<rparr>) = Inr incompleteEnv"
    by (simp add: exampleLib_def exampleBody_def incompleteBody_def unknownBody_def)
  have n: "TenantID incompleteEnv \<noteq> []" "EventID incompleteEnv \<noteq> []" "EventType incompleteEnv \<noteq> []"
    by (simp_all add: incompleteEnv_def)
  have k: "(TenantID incompleteEnv, skOf exampleClock incompleteEnv) = (''t1'', ''2025-01-01T00:00:00.000000003Z#e8'')"
    by (simp add: skOf_def createdOf_def incompleteEnv_def exampleClock_def)
  have e: "eventsItems (dynamo exampleWorld) = fmempty"
    by (simp add: exampleWorld_def exampleStore_def)
  from reason_present_iff_invalid[OF u n incomplete_accepted incomplete_texts, of exampleFmt]
  obtain item where
    a: "eventsItems (dynamo (fst (handleRecord exampleLib (persistEventOnce exampleFmt exampleCfg exampleClock None)
         exampleWorld \<lparr>Body = incompleteBody\<rparr>)))
       = fmupd (TenantID incompleteEnv, skOf exampleClock incompleteEnv) item (eventsItems (dynamo exampleWorld))"
    and b: "(fmlookup item ''reason'' \<noteq> None) = (fmlookup item ''status'' = Some (AttributeValueMemberS ''INVALID''))"
    by auto
  from a have "eventsItems (dynamo (fst (handleRecord exampleLib (persistEventOnce exampleFmt exampleCfg exampleClock None)
         exampleWorld \<lparr>Body = incompleteBody\<rparr>)))
       = fmupd (''t1'', ''2025-01-01T00:00:00.000000003Z#e8'') item fmempty"
    by (simp only: k e)
  with b show ?thesis by (intro exI[of _ item] conjI)
qed

section \<open>The attribute codec is lossless\<close>










end
